theory Spec2Isabelle
  imports Complex_Main
begin

section \<open>The menu components of packages/menu/src/menu.tsx\<close>

text \<open>
  The file defines React components: functions from a props object (and, for the
  \<^verbatim>\<open>forwardRef\<close> ones, a ref) to the React element they return. Each component is
  embedded as a HOL function computing that element. Everything the file imports and
  only consumes (the \<^verbatim>\<open>use-menu\<close> hooks, the styling hooks, the values of function
  props) is a field of the environment record \<open>menu_env\<close>.
\<close>

subsection \<open>JavaScript values and React elements\<close>

type_synonym key = string

text \<open>
  What a JSX tag can name: a component imported from another module (by its name; this
  also stands for any component a caller passes in the \<^verbatim>\<open>as\<close> prop), a component
  defined in this file, and what the \<^verbatim>\<open>chakra\<close> factory gives for a host tag
  (\<^verbatim>\<open>chakra.button\<close>) or for a component (\<^verbatim>\<open>chakra(motion.div)\<close>).
\<close>

datatype comp =
    Imported string
  | Local string
  | Chakra string
  | ChakraOf comp

text \<open>
  Values. \<open>Num\<close> holds the numeric literals of the file (no arithmetic is done on them);
  \<open>Fn\<close> is a function value, named, whose behaviour when called is \<open>call\<close> of the
  environment; \<open>Comp\<close> is a component used as an element type; \<open>Elem t ps\<close> is the React
  element of type \<open>t\<close> (a \<open>Str\<close> for a host tag such as \<^verbatim>\<open>svg\<close>, a \<open>Comp\<close> otherwise)
  with the props object \<open>ps\<close>, its children being the prop \<^verbatim>\<open>children\<close> as in React.
  The attribute \<^verbatim>\<open>ref\<close> is kept among the props under its own key.
\<close>

datatype jsval =
    Undefined
  | Null
  | Bool bool
  | Num rat
  | Str string
  | Fn string
  | Comp comp
  | Arr "jsval list"
  | Obj "(key \<times> jsval) list"
  | Elem jsval "(key \<times> jsval) list"

type_synonym props = "(key \<times> jsval) list"

datatype error = ChildrenOnlyError

subsection \<open>Objects: property access, assignment, spread, rest\<close>

text \<open>\<^verbatim>\<open>o.k\<close>: the value stored under \<open>k\<close>, \<^verbatim>\<open>undefined\<close> when there is none.\<close>

definition get :: "props \<Rightarrow> key \<Rightarrow> jsval" where
  "get ps k = (case map_of ps k of None \<Rightarrow> Undefined | Some v \<Rightarrow> v)"

text \<open>\<^verbatim>\<open>o[k] = v\<close>, and a JSX attribute \<^verbatim>\<open>k={v}\<close> written after what is already there.\<close>

fun assign :: "props \<Rightarrow> key \<Rightarrow> jsval \<Rightarrow> props" where
  "assign [] k v = [(k, v)]"
| "assign ((k', v') # ps) k v = (if k' = k then (k, v) # ps else (k', v') # assign ps k v)"

text \<open>
  \<^verbatim>\<open>{...a, ...b}\<close>: the entries of \<open>b\<close> written one after the other over \<open>a\<close>. An
  object has one entry under a key; should the list \<open>b\<close> hold two, the first is the
  object's (the one \<open>get\<close> reads) and the later ones are skipped.
\<close>

fun spread :: "props \<Rightarrow> props \<Rightarrow> props" where
  "spread a [] = a"
| "spread a ((k, v) # b) = spread (assign a k v) (filter (\<lambda>kv. fst kv \<noteq> k) b)"

text \<open>\<^verbatim>\<open>const { k1, k2, ...rest } = o\<close>: the rest.\<close>

definition omit :: "key list \<Rightarrow> props \<Rightarrow> props" where
  "omit ks ps = filter (\<lambda>kv. fst kv \<notin> set ks) ps"

subsection \<open>Truthiness and the short-circuit operators\<close>

fun truthy :: "jsval \<Rightarrow> bool" where
  "truthy Undefined = False"
| "truthy Null = False"
| "truthy (Bool b) = b"
| "truthy (Num r) = (r \<noteq> 0)"
| "truthy (Str s) = (s \<noteq> [])"
| "truthy _ = True"

definition or_js :: "jsval \<Rightarrow> jsval \<Rightarrow> jsval" where
  "or_js a b = (if truthy a then a else b)"

definition and_js :: "jsval \<Rightarrow> jsval \<Rightarrow> jsval" where
  "and_js a b = (if truthy a then b else a)"

text \<open>\<^verbatim>\<open>a ?? b\<close>.\<close>

definition nullish :: "jsval \<Rightarrow> jsval \<Rightarrow> jsval" where
  "nullish a b = (if a = Undefined \<or> a = Null then b else a)"

text \<open>A destructuring default \<^verbatim>\<open>{ k = d }\<close> applies to \<^verbatim>\<open>undefined\<close> only.\<close>

definition default_to :: "jsval \<Rightarrow> jsval \<Rightarrow> jsval" where
  "default_to v d = (if v = Undefined then d else v)"

subsection \<open>React\<close>

text \<open>
  \<^verbatim>\<open>React.createElement(type, props, ...children)\<close>, which JSX compiles to: no child
  leaves \<^verbatim>\<open>props.children\<close> as it is, one child becomes \<^verbatim>\<open>props.children\<close>, several
  become an array there.
\<close>

fun jsx :: "jsval \<Rightarrow> props \<Rightarrow> jsval list \<Rightarrow> jsval" where
  "jsx t ps [] = Elem t ps"
| "jsx t ps [c] = Elem t (assign ps ''children'' c)"
| "jsx t ps cs = Elem t (assign ps ''children'' (Arr cs))"

fun isValidElement :: "jsval \<Rightarrow> bool" where
  "isValidElement (Elem t ps) = True"
| "isValidElement _ = False"

text \<open>\<^verbatim>\<open>React.Children.only\<close> throws unless its argument is a single React element.\<close>

definition Children_only :: "jsval \<Rightarrow> error + jsval" where
  "Children_only children = (if isValidElement children then Inr children else Inl ChildrenOnlyError)"

fun el_props :: "jsval \<Rightarrow> props" where
  "el_props (Elem t ps) = ps"
| "el_props _ = []"

text \<open>\<^verbatim>\<open>React.cloneElement(element, config)\<close>: the same element with \<open>config\<close> over its props.\<close>

fun cloneElement :: "jsval \<Rightarrow> props \<Rightarrow> jsval" where
  "cloneElement (Elem t ps) config = Elem t (spread ps config)"
| "cloneElement v config = v"

subsection \<open>The environment: what the file imports and consumes\<close>

text \<open>
  The hooks of \<^verbatim>\<open>./use-menu\<close> and of \<^verbatim>\<open>@chakra-ui/system\<close> are not part of this file;
  a component only calls them and uses what they return. \<open>useStyles\<close> gives the styles
  of the parts (\<^verbatim>\<open>styles.button\<close>, \<^verbatim>\<open>styles.list\<close>, ...), each a style object or missing.
  \<open>call\<close> is what calling a function value returns, \<open>toString\<close> is JavaScript's string
  conversion of a value that is not a string.
\<close>

record menu_env =
  useMultiStyleConfig :: "string \<Rightarrow> props \<Rightarrow> jsval"
  omitThemingProps :: "props \<Rightarrow> props"
  useStyles :: "(key \<times> props) list"
  useMenu :: "props \<Rightarrow> props"
  useMenuContext :: props
  useMenuButton :: "props \<Rightarrow> jsval \<Rightarrow> props"
  useMenuList :: "props \<Rightarrow> jsval \<Rightarrow> props"
  useMenuPositioner :: props
  useMenuItem :: "props \<Rightarrow> jsval \<Rightarrow> props"
  useMenuOption :: "props \<Rightarrow> jsval \<Rightarrow> props"
  useMenuOptionGroup :: "props \<Rightarrow> props"
  call :: "string \<Rightarrow> jsval list \<Rightarrow> jsval"
  toString :: "jsval \<Rightarrow> string"

text \<open>\<^verbatim>\<open>...styles.part\<close> inside an object literal: nothing when the part is missing.\<close>

definition style_part :: "(key \<times> props) list \<Rightarrow> key \<Rightarrow> props" where
  "style_part styles k = (case map_of styles k of None \<Rightarrow> [] | Some s \<Rightarrow> s)"

text \<open>\<^verbatim>\<open>styles.part\<close> as a value.\<close>

definition style_val :: "(key \<times> props) list \<Rightarrow> key \<Rightarrow> jsval" where
  "style_val styles k = (case map_of styles k of None \<Rightarrow> Undefined | Some s \<Rightarrow> Obj s)"

subsection \<open>The helpers of @chakra-ui/utils\<close>

text \<open>
  Modelled from the spec: the joining inside \<^verbatim>\<open>cx\<close> (see below), a space between two
  class names.
\<close>

fun join_space :: "string list \<Rightarrow> string" where
  "join_space [] = []"
| "join_space [s] = s"
| "join_space (s # t # ss) = s @ '' '' @ join_space (t # ss)"

text \<open>
  Modelled from the spec: a class name given to \<^verbatim>\<open>cx\<close> (see below) is a string; any
  other value stands with its string conversion.
\<close>

definition class_string :: "menu_env \<Rightarrow> jsval \<Rightarrow> string" where
  "class_string env v = (case v of Str s \<Rightarrow> s | _ \<Rightarrow> toString env v)"

text \<open>
  Modelled from the spec: \<^verbatim>\<open>cx\<close> is imported from \<^verbatim>\<open>@chakra-ui/utils\<close>, which is not
  among the sources; the spec calls what it does class-name concatenation. The class
  names that are given (the truthy ones) are joined.
\<close>

definition cx :: "menu_env \<Rightarrow> jsval list \<Rightarrow> jsval" where
  "cx env classNames = Str (join_space (map (class_string env) (filter truthy classNames)))"

text \<open>
  Modelled from the spec: \<^verbatim>\<open>runIfFn\<close> is imported from \<^verbatim>\<open>@chakra-ui/utils\<close>, which is
  not among the sources. By the type of the children of \<open>Menu\<close> (\<^verbatim>\<open>MaybeRenderProp\<close>: a
  node, or a function from the object to a node) a function is called with the
  arguments, and any other value is returned as it is.
\<close>

definition runIfFn :: "menu_env \<Rightarrow> jsval \<Rightarrow> jsval list \<Rightarrow> jsval" where
  "runIfFn env valueOrFn args = (case valueOrFn of Fn f \<Rightarrow> call env f args | _ \<Rightarrow> valueOrFn)"

subsection \<open>The components\<close>

text \<open>The element types the file's JSX names.\<close>

abbreviation chakra :: "string \<Rightarrow> jsval" where
  "chakra tag \<equiv> Comp (Chakra tag)"

definition Motion :: jsval where
  "Motion = Comp (ChakraOf (Imported ''motion.div''))"

text \<open>
  \<open>Menu\<close>: provides the context and the styles to its children; \<^verbatim>\<open>React.useMemo\<close>
  of \<^verbatim>\<open>() => ctx\<close> is \<open>ctx\<close>.
\<close>

definition Menu :: "menu_env \<Rightarrow> props \<Rightarrow> jsval" where
  "Menu env props =
    (let children = get props ''children'';
         styles = useMultiStyleConfig env ''Menu'' props;
         ownProps = omitThemingProps env props;
         ctx = useMenu env ownProps;
         context = ctx;
         isOpen = get context ''isOpen'';
         onClose = get context ''onClose'';
         forceUpdate = get context ''forceUpdate''
     in jsx (Comp (Imported ''MenuProvider'')) [(''value'', Obj context)]
          [jsx (Comp (Imported ''StylesProvider'')) [(''value'', styles)]
             [runIfFn env children
                [Obj [(''isOpen'', isOpen), (''onClose'', onClose),
                      (''forceUpdate'', forceUpdate)]]]])"

definition StyledMenuButton :: "menu_env \<Rightarrow> props \<Rightarrow> jsval \<Rightarrow> jsval" where
  "StyledMenuButton env props ref =
    (let styles = useStyles env
     in jsx (chakra ''button'')
          (assign (spread [(''ref'', ref)] props) ''__css''
             (Obj (spread
                [(''display'', Str ''inline-flex''),
                 (''appearance'', Str ''none''),
                 (''alignItems'', Str ''center''),
                 (''outline'', Num 0),
                 (''transition'', Str ''all 250ms'')]
                (style_part styles ''button''))))
          [])"

definition MenuButton :: "menu_env \<Rightarrow> props \<Rightarrow> jsval \<Rightarrow> jsval" where
  "MenuButton env props ref =
    (let As = get props ''as'';
         rest = omit [''children'', ''as''] props;
         buttonProps = useMenuButton env rest ref;
         ButtonComp = or_js As (Comp (Local ''StyledMenuButton''))
     in jsx ButtonComp
          (assign (spread [] buttonProps) ''className''
             (cx env [Str ''chakra-menu__menu-button'', get props ''className'']))
          [jsx (chakra ''span'')
             [(''__css'', Obj [(''pointerEvents'', Str ''none''), (''flex'', Str ''1 1 auto'')])]
             [get props ''children'']])"

definition motionVariants :: jsval where
  "motionVariants = Obj
    [(''enter'', Obj
        [(''visibility'', Str ''visible''),
         (''opacity'', Num 1),
         (''scale'', Num 1),
         (''transition'', Obj
            [(''duration'', Num (2 / 10)),
             (''ease'', Arr [Num (4 / 10), Num 0, Num (2 / 10), Num 1])])]),
     (''exit'', Obj
        [(''transitionEnd'', Obj [(''visibility'', Str ''hidden'')]),
         (''opacity'', Num 0),
         (''scale'', Num (8 / 10)),
         (''transition'', Obj
            [(''duration'', Num (1 / 10)),
             (''easings'', Str ''easeOut'')])])]"

definition MenuList :: "menu_env \<Rightarrow> props \<Rightarrow> jsval \<Rightarrow> jsval" where
  "MenuList env props ref =
    (let isOpen = get (useMenuContext env) ''isOpen'';
         onTransitionEnd = get (useMenuContext env) ''onTransitionEnd'';
         listProps = useMenuList env props ref;
         positionerProps = useMenuPositioner env;
         styles = useStyles env
     in jsx (chakra ''div'')
          (assign (spread [] positionerProps) ''__css''
             (Obj [(''zIndex'',
                    (case map_of styles ''list'' of
                       None \<Rightarrow> Undefined
                     | Some l \<Rightarrow> get l ''zIndex''))]))
          [jsx Motion
             (assign (assign (assign (assign (assign (assign (spread [] listProps)
                ''onUpdate'' onTransitionEnd)
                ''className'' (cx env [Str ''chakra-menu__menu-list'', get listProps ''className'']))
                ''variants'' motionVariants)
                ''initial'' (Bool False))
                ''animate'' (if truthy isOpen then Str ''enter'' else Str ''exit''))
                ''__css'' (Obj (spread [(''outline'', Num 0)] (style_part styles ''list''))))
             []])"

definition StyledMenuItem :: "menu_env \<Rightarrow> props \<Rightarrow> jsval \<Rightarrow> jsval" where
  "StyledMenuItem env props ref =
    (let type = get props ''type'';
         rest = omit [''type''] props;
         styles = useStyles env;
         btnType = (if truthy (get rest ''as'') then nullish type Undefined else Str ''button'');
         buttonStyles = spread
           [(''textDecoration'', Str ''none''),
            (''color'', Str ''inherit''),
            (''userSelect'', Str ''none''),
            (''display'', Str ''flex''),
            (''width'', Str ''100%''),
            (''alignItems'', Str ''center''),
            (''textAlign'', Str ''left''),
            (''flex'', Str ''0 0 auto''),
            (''outline'', Num 0)]
           (style_part styles ''item'')
     in jsx (chakra ''button'')
          (assign (spread [(''ref'', ref), (''type'', btnType)] rest) ''__css'' (Obj buttonStyles))
          [])"

definition MenuItem :: "menu_env \<Rightarrow> props \<Rightarrow> jsval \<Rightarrow> jsval" where
  "MenuItem env props ref =
    (let icon = get props ''icon'';
         iconSpacing = default_to (get props ''iconSpacing'') (Str ''0.75rem'');
         command = get props ''command'';
         children = get props ''children'';
         rest = omit [''icon'', ''iconSpacing'', ''command'', ''children''] props;
         menuItemProps = useMenuItem env rest ref;
         shouldWrap = or_js icon command;
         children' = (if truthy shouldWrap
                      then jsx (chakra ''span'')
                             [(''pointerEvents'', Str ''none''), (''flex'', Str ''1'')] [children]
                      else children)
     in jsx (Comp (Local ''StyledMenuItem''))
          (assign (spread [] menuItemProps) ''className''
             (cx env [Str ''chakra-menu__menuitem'', get menuItemProps ''className'']))
          [and_js icon
             (jsx (Comp (Local ''MenuIcon''))
                [(''fontSize'', Str ''0.8em''), (''marginEnd'', iconSpacing)] [icon]),
           children',
           and_js command (jsx (Comp (Local ''MenuCommand'')) [] [command])])"

definition CheckIcon :: "props \<Rightarrow> jsval" where
  "CheckIcon props =
    jsx (Str ''svg'')
      (spread [(''viewBox'', Str ''0 0 14 14''), (''width'', Str ''1em''), (''height'', Str ''1em'')]
         props)
      [jsx (Str ''polygon'')
         [(''fill'', Str ''currentColor''),
          (''points'',
           Str ''5.5 11.9993304 14 3.49933039 12.5 2 5.5 8.99933039 1.5 4.9968652 0 6.49933039'')]
         []]"

definition MenuItemOption :: "menu_env \<Rightarrow> props \<Rightarrow> jsval \<Rightarrow> jsval" where
  "MenuItemOption env props ref =
    (let icon = get props ''icon'';
         iconSpacing = default_to (get props ''iconSpacing'') (Str ''0.75rem'');
         rest = omit [''icon'', ''iconSpacing''] props;
         optionProps = useMenuOption env rest ref
     in jsx (Comp (Local ''StyledMenuItem''))
          (assign (spread [] optionProps) ''className''
             (cx env [Str ''chakra-menu__menuitem-option'', get rest ''className'']))
          [jsx (Comp (Local ''MenuIcon''))
             [(''fontSize'', Str ''0.8em''),
              (''marginEnd'', iconSpacing),
              (''opacity'', if truthy (get props ''isChecked'') then Num 1 else Num 0)]
             [or_js icon (jsx (Comp (Local ''CheckIcon'')) [] [])],
           jsx (chakra ''span'') [(''flex'', Str ''1'')] [get optionProps ''children'']])"

definition MenuOptionGroup :: "menu_env \<Rightarrow> props \<Rightarrow> jsval" where
  "MenuOptionGroup env props =
    (let className = get props ''className'';
         title = get props ''title'';
         rest = omit [''className'', ''title''] props;
         ownProps = useMenuOptionGroup env rest
     in jsx (Comp (Local ''MenuGroup''))
          (spread
             [(''title'', title),
              (''className'', cx env [Str ''chakra-menu__option-group'', className])]
             ownProps)
          [])"

definition MenuGroup :: "menu_env \<Rightarrow> props \<Rightarrow> jsval \<Rightarrow> jsval" where
  "MenuGroup env props ref =
    (let title = get props ''title'';
         children = get props ''children'';
         className = get props ''className'';
         rest = omit [''title'', ''children'', ''className''] props;
         className' = cx env [Str ''chakra-menu__group__title'', className];
         styles = useStyles env
     in jsx (chakra ''div'')
          [(''ref'', ref), (''className'', Str ''chakra-menu__group''), (''role'', Str ''group'')]
          [and_js title
             (jsx (chakra ''p'')
                (assign (spread [(''className'', className')] rest) ''__css''
                   (style_val styles ''groupTitle''))
                [title]),
           children])"

definition MenuCommand :: "menu_env \<Rightarrow> props \<Rightarrow> jsval \<Rightarrow> jsval" where
  "MenuCommand env props ref =
    (let styles = useStyles env
     in jsx (chakra ''span'')
          (assign (assign (spread [(''ref'', ref)] props)
             ''__css'' (style_val styles ''command''))
             ''className'' (Str ''chakra-menu__command''))
          [])"

definition MenuIcon :: "menu_env \<Rightarrow> props \<Rightarrow> error + jsval" where
  "MenuIcon env props =
    (let className = get props ''className'';
         children = get props ''children'';
         rest = omit [''className'', ''children''] props
     in case Children_only children of
          Inl e \<Rightarrow> Inl e
        | Inr child \<Rightarrow>
            (let clone = (if isValidElement child
                          then cloneElement child
                                 [(''focusable'', Str ''false''),
                                  (''aria-hidden'', Bool True),
                                  (''className'',
                                   cx env [Str ''chakra-menu__icon'',
                                           get (el_props child) ''className''])]
                          else Null);
                 className' = cx env [Str ''chakra-menu__icon-wrapper'', className]
             in Inr (jsx (chakra ''span'')
                       (assign (spread [(''className'', className')] rest) ''__css''
                          (Obj [(''flexShrink'', Num 0)]))
                       [clone])))"

definition MenuDivider :: "menu_env \<Rightarrow> props \<Rightarrow> jsval" where
  "MenuDivider env props =
    (let className = get props ''className'';
         rest = omit [''className''] props;
         styles = useStyles env
     in jsx (chakra ''hr'')
          (assign (spread
             [(''role'', Str ''separator''),
              (''aria-orientation'', Str ''horizontal''),
              (''className'', cx env [Str ''chakra-menu__divider'', className])]
             rest) ''__css'' (style_val styles ''divider''))
          [])"

subsection \<open>The module: its components by name\<close>

text \<open>
  A component as React calls it: with the props and the ref, giving an element or
  throwing. The components that take no ref ignore it.
\<close>

type_synonym component = "menu_env \<Rightarrow> props \<Rightarrow> jsval \<Rightarrow> error + jsval"

text \<open>
  What the file exports (\<^verbatim>\<open>export const\<close>), and what it keeps to itself. The
  \<^verbatim>\<open>displayName\<close> that each exported component gets under \<^verbatim>\<open>__DEV__\<close>, and the
  \<^verbatim>\<open>id\<close> of \<open>MenuItemOption\<close>, are properties of the component and no part of what
  it renders.
\<close>

definition exports :: "(string \<times> component) list" where
  "exports =
    [(''Menu'', \<lambda>env props ref. Inr (Menu env props)),
     (''MenuButton'', \<lambda>env props ref. Inr (MenuButton env props ref)),
     (''MenuList'', \<lambda>env props ref. Inr (MenuList env props ref)),
     (''MenuItem'', \<lambda>env props ref. Inr (MenuItem env props ref)),
     (''MenuItemOption'', \<lambda>env props ref. Inr (MenuItemOption env props ref)),
     (''MenuOptionGroup'', \<lambda>env props ref. Inr (MenuOptionGroup env props)),
     (''MenuGroup'', \<lambda>env props ref. Inr (MenuGroup env props ref)),
     (''MenuCommand'', \<lambda>env props ref. Inr (MenuCommand env props ref)),
     (''MenuIcon'', \<lambda>env props ref. MenuIcon env props),
     (''MenuDivider'', \<lambda>env props ref. Inr (MenuDivider env props))]"

definition internals :: "(string \<times> component) list" where
  "internals =
    [(''StyledMenuButton'', \<lambda>env props ref. Inr (StyledMenuButton env props ref)),
     (''StyledMenuItem'', \<lambda>env props ref. Inr (StyledMenuItem env props ref)),
     (''CheckIcon'', \<lambda>env props ref. Inr (CheckIcon props))]"

subsection \<open>The elements of an output\<close>

text \<open>
  Every element of a rendered value: the element itself and, through its
  \<^verbatim>\<open>children\<close> and through arrays of children, the elements below it.
\<close>

function elements :: "jsval \<Rightarrow> (jsval \<times> props) list" where
  "elements (Elem t ps) = (t, ps) # elements (get ps ''children'')"
| "elements (Arr vs) = concat (map elements vs)"
| "elements Undefined = []"
| "elements Null = []"
| "elements (Bool b) = []"
| "elements (Num r) = []"
| "elements (Str s) = []"
| "elements (Fn f) = []"
| "elements (Comp c) = []"
| "elements (Obj ps) = []"
  by pat_completeness auto
termination
proof (relation "measure size")
  show "wf (measure size)"
    by simp
next
  fix t ps
  have "size (get qs k) \<le> size_list (size_prod (\<lambda>_. 0) size) qs" for qs k
    by (induction qs) (auto simp: get_def)
  from this [of ps "''children''"] have "size (get ps ''children'') < size (Elem t ps)"
    by simp
  then show "(get ps ''children'', Elem t ps) \<in> measure size"
    by simp
next
  fix vs :: "jsval list" and x
  assume "x \<in> set vs"
  then show "(x, Arr vs) \<in> measure size"
    by (induction vs) auto
qed

text \<open>Some element of the output has the attribute \<open>k\<close> with the value \<open>v\<close>.\<close>

definition carries :: "key \<Rightarrow> jsval \<Rightarrow> jsval \<Rightarrow> bool" where
  "carries k v out = list_ex (\<lambda>e. map_of (snd e) k = Some v) (elements out)"

text \<open>No element of the output has the attribute \<open>k\<close>.\<close>

definition lacks :: "key \<Rightarrow> jsval \<Rightarrow> bool" where
  "lacks k out = list_all (\<lambda>e. map_of (snd e) k = None) (elements out)"

subsection \<open>An environment to run the components in\<close>

text \<open>
  Hooks that hand the props on as they are, a closed menu, no theme styles, and one
  render-prop function, \<^verbatim>\<open>label\<close>, that shows whether the menu is open.
\<close>

definition plain_env :: menu_env where
  "plain_env = \<lparr>
     useMultiStyleConfig = (\<lambda>name ps. Obj []),
     omitThemingProps = omit [''styleConfig'', ''size'', ''variant'', ''colorScheme''],
     useStyles = [],
     useMenu = (\<lambda>ps. [(''isOpen'', Bool False), (''onClose'', Fn ''onClose''),
                        (''forceUpdate'', Null)]),
     useMenuContext = [(''isOpen'', Bool False), (''onTransitionEnd'', Fn ''onTransitionEnd'')],
     useMenuButton = (\<lambda>ps ref. ps),
     useMenuList = (\<lambda>ps ref. ps),
     useMenuPositioner = [],
     useMenuItem = (\<lambda>ps ref. ps),
     useMenuOption = (\<lambda>ps ref. ps),
     useMenuOptionGroup = (\<lambda>ps. ps),
     call = (\<lambda>f args. case args of
               [Obj a] \<Rightarrow> (if f = ''label'' then get a ''isOpen'' else Undefined)
             | _ \<Rightarrow> Undefined),
     toString = (\<lambda>v. [])
   \<rparr>"

section \<open>Properties\<close>

subsection \<open>Objects\<close>

text \<open>
  What a props list means is the object \<open>map_of\<close> reads from it; assignment, spread and
  rest are the operations on that object.
\<close>

lemma map_of_assign: "map_of (assign ps k v) = (map_of ps)(k \<mapsto> v)"
  by (induction ps) (auto simp: fun_eq_iff)

lemma map_of_drop_key: "map_of (filter (\<lambda>kv. fst kv \<noteq> k) b) = (map_of b)(k := None)"
  by (induction b) (auto simp: fun_eq_iff)

lemma map_of_spread: "map_of (spread a b) = map_of a ++ map_of b"
proof (induction a b rule: spread.induct)
  case (1 a)
  show ?case by simp
next
  case (2 a k v b)
  show ?case
    by (auto simp: 2 map_of_assign map_of_drop_key fun_eq_iff map_add_def split: option.splits)
qed

lemma map_of_omit: "map_of (omit ks ps) k = (if k \<in> set ks then None else map_of ps k)"
  by (induction ps) (auto simp: omit_def)

lemma get_Nil: "get [] k = Undefined"
  by (simp add: get_def)

lemma get_Cons: "get ((k', v) # ps) k = (if k' = k then v else get ps k)"
  by (simp add: get_def)

lemma get_assign: "get (assign ps k v) k' = (if k' = k then v else get ps k')"
  by (simp add: get_def map_of_assign)

lemma get_spread: "get (spread a b) k = (if map_of b k = None then get a k else get b k)"
  by (auto simp: get_def map_of_spread map_add_def split: option.splits)

lemma get_omit: "get (omit ks ps) k = (if k \<in> set ks then Undefined else get ps k)"
  by (simp add: get_def map_of_omit)

lemma get_absent: "map_of ps k = None \<Longrightarrow> get ps k = Undefined"
  by (simp add: get_def)

lemmas get_simps = get_Nil get_Cons get_assign get_spread get_omit get_absent map_of_omit
  map_of_assign map_of_spread

subsection \<open>Elements of an output\<close>

lemma carries_root: "map_of ps k = Some v \<Longrightarrow> carries k v (Elem t ps)"
  by (simp add: carries_def)

lemma carries_child: "carries k v (get ps ''children'') \<Longrightarrow> carries k v (Elem t ps)"
  by (simp add: carries_def)

lemma carries_Arr: "carries k v (Arr vs) = list_ex (carries k v) vs"
  by (induction vs) (auto simp: carries_def)

lemma lacks_Elem: "lacks k (Elem t ps) = (map_of ps k = None \<and> lacks k (get ps ''children''))"
  by (simp add: lacks_def)

lemma lacks_Arr: "lacks k (Arr vs) = list_all (lacks k) vs"
  by (induction vs) (auto simp: lacks_def)

lemma lacks_falsy: "\<not> truthy v \<Longrightarrow> lacks k v"
  by (cases v) (auto simp: lacks_def)

lemma lacks_atom:
  "lacks k Undefined" "lacks k Null" "lacks k (Bool b)" "lacks k (Num r)" "lacks k (Str s)"
  "lacks k (Fn f)" "lacks k (Comp c)" "lacks k (Obj ps)"
  by (simp_all add: lacks_def)

lemma elements_falsy: "\<not> truthy v \<Longrightarrow> elements v = []"
  by (cases v) auto

lemma lacks_and_js: "lacks k (and_js a b) = (truthy a \<longrightarrow> lacks k b)"
  by (simp add: and_js_def lacks_falsy)

lemma lacks_or_js: "lacks k b \<Longrightarrow> lacks k (or_js a b) = lacks k a"
  by (simp add: or_js_def lacks_falsy)

lemma lacks_if_truthy: "(truthy a \<longrightarrow> lacks k a) = lacks k a"
  using lacks_falsy by blast

lemmas lacks_simps = lacks_Elem lacks_Arr lacks_atom lacks_and_js lacks_if_truthy

subsection \<open>Forwarding of props\<close>

lemma StyledMenuButton_forwards:
  "map_of props k = Some v \<Longrightarrow> k \<noteq> ''__css'' \<Longrightarrow> carries k v (StyledMenuButton env props ref)"
  by (simp add: StyledMenuButton_def Let_def carries_root map_of_assign map_of_spread)

lemma StyledMenuItem_forwards:
  "map_of props k = Some v \<Longrightarrow> k \<noteq> ''__css'' \<Longrightarrow> k \<noteq> ''type'' \<Longrightarrow>
   carries k v (StyledMenuItem env props ref)"
  by (simp add: StyledMenuItem_def Let_def carries_root map_of_assign map_of_spread map_of_omit)

lemma MenuCommand_forwards:
  "map_of props k = Some v \<Longrightarrow> k \<noteq> ''__css'' \<Longrightarrow> k \<noteq> ''className'' \<Longrightarrow>
   carries k v (MenuCommand env props ref)"
  by (simp add: MenuCommand_def Let_def carries_root map_of_assign map_of_spread)

lemma MenuDivider_forwards:
  "map_of props k = Some v \<Longrightarrow> k \<noteq> ''__css'' \<Longrightarrow> k \<noteq> ''className'' \<Longrightarrow>
   carries k v (MenuDivider env props)"
  by (simp add: MenuDivider_def Let_def carries_root map_of_assign map_of_spread map_of_omit)

lemma MenuIcon_forwards:
  "map_of props k = Some v \<Longrightarrow> k \<noteq> ''__css'' \<Longrightarrow> k \<noteq> ''className'' \<Longrightarrow> k \<noteq> ''children'' \<Longrightarrow>
   MenuIcon env props = Inr icon \<Longrightarrow> carries k v icon"
  by (auto simp: MenuIcon_def Let_def Children_only_def carries_root map_of_assign map_of_spread
      map_of_omit split: if_splits)

lemma MenuButton_forwards:
  "map_of (useMenuButton env (omit [''children'', ''as''] props) ref) k = Some v \<Longrightarrow>
   k \<noteq> ''className'' \<Longrightarrow> k \<noteq> ''children'' \<Longrightarrow> carries k v (MenuButton env props ref)"
  by (simp add: MenuButton_def Let_def carries_root map_of_assign map_of_spread)

lemma MenuList_forwards:
  "map_of (useMenuList env props ref) k = Some v \<Longrightarrow>
   k \<notin> {''onUpdate'', ''className'', ''variants'', ''initial'', ''animate'', ''__css''} \<Longrightarrow>
   carries k v (MenuList env props ref)"
  by (simp add: MenuList_def Let_def carries_root carries_child get_assign map_of_assign
      map_of_spread)

lemma MenuItem_forwards:
  "map_of (useMenuItem env (omit [''icon'', ''iconSpacing'', ''command'', ''children''] props) ref)
     k = Some v \<Longrightarrow>
   k \<noteq> ''className'' \<Longrightarrow> k \<noteq> ''children'' \<Longrightarrow> carries k v (MenuItem env props ref)"
  by (simp add: MenuItem_def Let_def carries_root map_of_assign map_of_spread)

lemma MenuItemOption_forwards:
  "map_of (useMenuOption env (omit [''icon'', ''iconSpacing''] props) ref) k = Some v \<Longrightarrow>
   k \<noteq> ''className'' \<Longrightarrow> k \<noteq> ''children'' \<Longrightarrow> carries k v (MenuItemOption env props ref)"
  by (simp add: MenuItemOption_def Let_def carries_root map_of_assign map_of_spread)

lemma MenuOptionGroup_forwards:
  "map_of (useMenuOptionGroup env (omit [''className'', ''title''] props)) k = Some v \<Longrightarrow>
   carries k v (MenuOptionGroup env props)"
  by (simp add: MenuOptionGroup_def Let_def carries_root map_of_spread)

lemma MenuGroup_forwards_to_title:
  "truthy (get props ''title'') \<Longrightarrow> map_of props k = Some v \<Longrightarrow>
   k \<notin> {''title'', ''children'', ''className'', ''__css''} \<Longrightarrow>
   carries k v (MenuGroup env props ref)"
  by (simp add: MenuGroup_def Let_def and_js_def carries_child carries_Arr carries_root get_Cons
      map_of_assign map_of_spread map_of_omit)

lemma MenuGroup_without_title:
  "\<not> truthy (get props ''title'') \<Longrightarrow>
   elements (MenuGroup env props ref) =
     (chakra ''div'',
      [(''ref'', ref), (''className'', Str ''chakra-menu__group''), (''role'', Str ''group''),
       (''children'', Arr [get props ''title'', get props ''children''])])
     # elements (get props ''children'')"
  by (simp add: MenuGroup_def Let_def and_js_def get_Cons elements_falsy)

text \<open>
  C1, as amended. A prop that a component neither takes for itself nor overwrites after
  the spread is put on an element of the output: by \<open>StyledMenuButton\<close>,
  \<open>StyledMenuItem\<close>, \<open>MenuCommand\<close>, \<open>MenuDivider\<close> and \<open>MenuIcon\<close> the caller's
  prop itself; by \<open>MenuButton\<close>, \<open>MenuList\<close>, \<open>MenuItem\<close>, \<open>MenuItemOption\<close> and
  \<open>MenuOptionGroup\<close> every prop that the \<^verbatim>\<open>use-menu\<close> hook returns for the caller's
  remaining props. \<open>MenuGroup\<close> puts the remaining props on the title paragraph, which
  it renders for a truthy title only: without one the output is the group's
  \<^verbatim>\<open>div\<close>, with its four fixed attributes, and the children's elements.
\<close>

theorem props_are_forwarded:
  "(map_of props k = Some v \<and> k \<noteq> ''__css'' \<longrightarrow>
      carries k v (StyledMenuButton env props ref)) \<and>
   (map_of props k = Some v \<and> k \<noteq> ''__css'' \<and> k \<noteq> ''type'' \<longrightarrow>
      carries k v (StyledMenuItem env props ref)) \<and>
   (map_of props k = Some v \<and> k \<noteq> ''__css'' \<and> k \<noteq> ''className'' \<longrightarrow>
      carries k v (MenuCommand env props ref)) \<and>
   (map_of props k = Some v \<and> k \<noteq> ''__css'' \<and> k \<noteq> ''className'' \<longrightarrow>
      carries k v (MenuDivider env props)) \<and>
   (map_of props k = Some v \<and> k \<noteq> ''__css'' \<and> k \<noteq> ''className'' \<and> k \<noteq> ''children'' \<and>
    MenuIcon env props = Inr icon \<longrightarrow>
      carries k v icon) \<and>
   (map_of (useMenuButton env (omit [''children'', ''as''] props) ref) k = Some v \<and>
    k \<noteq> ''className'' \<and> k \<noteq> ''children'' \<longrightarrow>
      carries k v (MenuButton env props ref)) \<and>
   (map_of (useMenuList env props ref) k = Some v \<and>
    k \<notin> {''onUpdate'', ''className'', ''variants'', ''initial'', ''animate'', ''__css''} \<longrightarrow>
      carries k v (MenuList env props ref)) \<and>
   (map_of (useMenuItem env (omit [''icon'', ''iconSpacing'', ''command'', ''children''] props) ref)
      k = Some v \<and>
    k \<noteq> ''className'' \<and> k \<noteq> ''children'' \<longrightarrow>
      carries k v (MenuItem env props ref)) \<and>
   (map_of (useMenuOption env (omit [''icon'', ''iconSpacing''] props) ref) k = Some v \<and>
    k \<noteq> ''className'' \<and> k \<noteq> ''children'' \<longrightarrow>
      carries k v (MenuItemOption env props ref)) \<and>
   (map_of (useMenuOptionGroup env (omit [''className'', ''title''] props)) k = Some v \<longrightarrow>
      carries k v (MenuOptionGroup env props)) \<and>
   (truthy (get props ''title'') \<and> map_of props k = Some v \<and>
    k \<notin> {''title'', ''children'', ''className'', ''__css''} \<longrightarrow>
      carries k v (MenuGroup env props ref)) \<and>
   (\<not> truthy (get props ''title'') \<longrightarrow>
      elements (MenuGroup env props ref) =
        (chakra ''div'',
         [(''ref'', ref), (''className'', Str ''chakra-menu__group''), (''role'', Str ''group''),
          (''children'', Arr [get props ''title'', get props ''children''])])
        # elements (get props ''children''))"
proof (intro conjI impI; (elim conjE)?)
  show "carries k v (StyledMenuButton env props ref)"
    if "map_of props k = Some v" "k \<noteq> ''__css''"
    using that by (rule StyledMenuButton_forwards)
  show "carries k v (StyledMenuItem env props ref)"
    if "map_of props k = Some v" "k \<noteq> ''__css''" "k \<noteq> ''type''"
    using that by (rule StyledMenuItem_forwards)
  show "carries k v (MenuCommand env props ref)"
    if "map_of props k = Some v" "k \<noteq> ''__css''" "k \<noteq> ''className''"
    using that by (rule MenuCommand_forwards)
  show "carries k v (MenuDivider env props)"
    if "map_of props k = Some v" "k \<noteq> ''__css''" "k \<noteq> ''className''"
    using that by (rule MenuDivider_forwards)
  show "carries k v icon"
    if "map_of props k = Some v" "k \<noteq> ''__css''" "k \<noteq> ''className''" "k \<noteq> ''children''"
      "MenuIcon env props = Inr icon"
    using that by (rule MenuIcon_forwards)
  show "carries k v (MenuButton env props ref)"
    if "map_of (useMenuButton env (omit [''children'', ''as''] props) ref) k = Some v"
      "k \<noteq> ''className''" "k \<noteq> ''children''"
    using that by (rule MenuButton_forwards)
  show "carries k v (MenuList env props ref)"
    if "map_of (useMenuList env props ref) k = Some v"
      "k \<notin> {''onUpdate'', ''className'', ''variants'', ''initial'', ''animate'', ''__css''}"
    using that by (rule MenuList_forwards)
  show "carries k v (MenuItem env props ref)"
    if "map_of (useMenuItem env
          (omit [''icon'', ''iconSpacing'', ''command'', ''children''] props) ref) k = Some v"
      "k \<noteq> ''className''" "k \<noteq> ''children''"
    using that by (rule MenuItem_forwards)
  show "carries k v (MenuItemOption env props ref)"
    if "map_of (useMenuOption env (omit [''icon'', ''iconSpacing''] props) ref) k = Some v"
      "k \<noteq> ''className''" "k \<noteq> ''children''"
    using that by (rule MenuItemOption_forwards)
  show "carries k v (MenuOptionGroup env props)"
    if "map_of (useMenuOptionGroup env (omit [''className'', ''title''] props)) k = Some v"
    using that by (rule MenuOptionGroup_forwards)
  show "carries k v (MenuGroup env props ref)"
    if "truthy (get props ''title'')" "map_of props k = Some v"
      "k \<notin> {''title'', ''children'', ''className'', ''__css''}"
    using that by (rule MenuGroup_forwards_to_title)
  show "elements (MenuGroup env props ref) =
      (chakra ''div'',
       [(''ref'', ref), (''className'', Str ''chakra-menu__group''), (''role'', Str ''group''),
        (''children'', Arr [get props ''title'', get props ''children''])])
      # elements (get props ''children'')"
    if "\<not> truthy (get props ''title'')"
    using that by (rule MenuGroup_without_title)
qed

text \<open>
  The theorem at work: an \<^verbatim>\<open>id\<close> given to each component, with the hooks of
  \<open>plain_env\<close>; the icon wrapper that \<open>MenuIcon\<close> returns for an \<^verbatim>\<open>svg\<close> child; and a
  group without a title.
\<close>

theorem props_are_forwarded_witness:
  "carries ''id'' (Str ''fruits'')
     (StyledMenuButton plain_env [(''id'', Str ''fruits''), (''title'', Str ''Fruits'')] Null) \<and>
   carries ''id'' (Str ''fruits'')
     (StyledMenuItem plain_env [(''id'', Str ''fruits''), (''title'', Str ''Fruits'')] Null) \<and>
   carries ''id'' (Str ''fruits'')
     (MenuCommand plain_env [(''id'', Str ''fruits''), (''title'', Str ''Fruits'')] Null) \<and>
   carries ''id'' (Str ''fruits'')
     (MenuDivider plain_env [(''id'', Str ''fruits''), (''title'', Str ''Fruits'')]) \<and>
   carries ''id'' (Str ''fruits'')
     (MenuButton plain_env [(''id'', Str ''fruits''), (''title'', Str ''Fruits'')] Null) \<and>
   carries ''id'' (Str ''fruits'')
     (MenuList plain_env [(''id'', Str ''fruits''), (''title'', Str ''Fruits'')] Null) \<and>
   carries ''id'' (Str ''fruits'')
     (MenuItem plain_env [(''id'', Str ''fruits''), (''title'', Str ''Fruits'')] Null) \<and>
   carries ''id'' (Str ''fruits'')
     (MenuItemOption plain_env [(''id'', Str ''fruits''), (''title'', Str ''Fruits'')] Null) \<and>
   carries ''id'' (Str ''fruits'')
     (MenuOptionGroup plain_env [(''id'', Str ''fruits''), (''title'', Str ''Fruits'')]) \<and>
   carries ''id'' (Str ''fruits'')
     (MenuGroup plain_env [(''id'', Str ''fruits''), (''title'', Str ''Fruits'')] Null) \<and>
   carries ''id'' (Str ''fruits'')
     (Elem (chakra ''span'')
        [(''className'', Str ''chakra-menu__icon-wrapper''),
         (''id'', Str ''fruits''),
         (''__css'', Obj [(''flexShrink'', Num 0)]),
         (''children'',
          Elem (Str ''svg'')
            [(''focusable'', Str ''false''), (''aria-hidden'', Bool True),
             (''className'', Str ''chakra-menu__icon'')])]) \<and>
   elements (MenuGroup plain_env [(''id'', Str ''fruits'')] Null) =
     [(chakra ''div'',
       [(''ref'', Null), (''className'', Str ''chakra-menu__group''), (''role'', Str ''group''),
        (''children'', Arr [Undefined, Undefined])])]"
proof -
  have icon:
    "MenuIcon plain_env [(''id'', Str ''fruits''), (''children'', Elem (Str ''svg'') [])] =
       Inr (Elem (chakra ''span'')
              [(''className'', Str ''chakra-menu__icon-wrapper''),
               (''id'', Str ''fruits''),
               (''__css'', Obj [(''flexShrink'', Num 0)]),
               (''children'',
                Elem (Str ''svg'')
                  [(''focusable'', Str ''false''), (''aria-hidden'', Bool True),
                   (''className'', Str ''chakra-menu__icon'')])])"
    by (simp add: MenuIcon_def Let_def Children_only_def get_def omit_def cx_def
        class_string_def)
  have hooks:
    "useMenuButton plain_env = (\<lambda>ps ref. ps)" "useMenuList plain_env = (\<lambda>ps ref. ps)"
    "useMenuItem plain_env = (\<lambda>ps ref. ps)" "useMenuOption plain_env = (\<lambda>ps ref. ps)"
    "useMenuOptionGroup plain_env = (\<lambda>ps. ps)"
    by (simp_all add: plain_env_def)
  show ?thesis
    using props_are_forwarded [of "[(''id'', Str ''fruits''), (''title'', Str ''Fruits'')]"
        "''id''" "Str ''fruits''" plain_env Null Undefined]
      props_are_forwarded [of "[(''id'', Str ''fruits'')]" "''id''" "Str ''fruits''"
        plain_env Null Undefined]
      props_are_forwarded [of "[(''id'', Str ''fruits''), (''children'', Elem (Str ''svg'') [])]"
        "''id''" "Str ''fruits''" plain_env Null
        "Elem (chakra ''span'')
           [(''className'', Str ''chakra-menu__icon-wrapper''),
            (''id'', Str ''fruits''),
            (''__css'', Obj [(''flexShrink'', Num 0)]),
            (''children'',
             Elem (Str ''svg'')
               [(''focusable'', Str ''false''), (''aria-hidden'', Bool True),
                (''className'', Str ''chakra-menu__icon'')])]"]
    by (simp add: hooks icon omit_def get_def)
qed

text \<open>
  C1 as it was stated fails: a \<open>MenuGroup\<close> without a title forwards its \<^verbatim>\<open>id\<close> to
  no element.
\<close>

theorem MenuGroup_drops_props_counterexample:
  "\<not> carries ''id'' (Str ''fruits'') (MenuGroup plain_env [(''id'', Str ''fruits'')] Null)"
  by (simp add: MenuGroup_def Let_def get_simps and_js_def carries_def omit_def)

subsection \<open>Role attributes\<close>

lemma Menu_role:
  "lacks ''role'' (Menu env props) =
     lacks ''role''
       (runIfFn env (get props ''children'')
          [Obj [(''isOpen'', get (useMenu env (omitThemingProps env props)) ''isOpen''),
                (''onClose'', get (useMenu env (omitThemingProps env props)) ''onClose''),
                (''forceUpdate'',
                 get (useMenu env (omitThemingProps env props)) ''forceUpdate'')]])"
  by (simp add: Menu_def Let_def lacks_simps get_simps)

lemma StyledMenuButton_role:
  "lacks ''role'' (StyledMenuButton env props ref) =
     (map_of props ''role'' = None \<and> lacks ''role'' (get props ''children''))"
  by (simp add: StyledMenuButton_def Let_def lacks_simps get_simps)

lemma MenuButton_role:
  "lacks ''role'' (MenuButton env props ref) =
     (map_of (useMenuButton env (omit [''children'', ''as''] props) ref) ''role'' = None \<and>
      lacks ''role'' (get props ''children''))"
  by (simp add: MenuButton_def Let_def lacks_simps get_simps)

lemma MenuList_role:
  "lacks ''role'' (MenuList env props ref) =
     (map_of (useMenuPositioner env) ''role'' = None \<and>
      map_of (useMenuList env props ref) ''role'' = None \<and>
      lacks ''role'' (get (useMenuList env props ref) ''children''))"
  by (simp add: MenuList_def Let_def lacks_simps get_simps)

lemma StyledMenuItem_role:
  "lacks ''role'' (StyledMenuItem env props ref) =
     (map_of props ''role'' = None \<and> lacks ''role'' (get props ''children''))"
  by (simp add: StyledMenuItem_def Let_def lacks_simps get_simps)

lemma MenuItem_role:
  "lacks ''role'' (MenuItem env props ref) =
     (map_of (useMenuItem env
        (omit [''icon'', ''iconSpacing'', ''command'', ''children''] props) ref) ''role'' = None \<and>
      lacks ''role'' (get props ''icon'') \<and>
      lacks ''role'' (get props ''children'') \<and>
      lacks ''role'' (get props ''command''))"
  by (simp add: MenuItem_def Let_def lacks_simps get_simps)

lemma CheckIcon_role: "lacks ''role'' (CheckIcon props) = (map_of props ''role'' = None)"
  by (simp add: CheckIcon_def lacks_simps get_simps)

lemma MenuItemOption_role:
  "lacks ''role'' (MenuItemOption env props ref) =
     (map_of (useMenuOption env (omit [''icon'', ''iconSpacing''] props) ref) ''role'' = None \<and>
      lacks ''role'' (get props ''icon'') \<and>
      lacks ''role''
        (get (useMenuOption env (omit [''icon'', ''iconSpacing''] props) ref) ''children''))"
  by (simp add: MenuItemOption_def Let_def lacks_simps get_simps lacks_or_js)

lemma MenuOptionGroup_role:
  "lacks ''role'' (MenuOptionGroup env props) =
     (map_of (useMenuOptionGroup env (omit [''className'', ''title''] props)) ''role'' = None \<and>
      lacks ''role''
        (get (useMenuOptionGroup env (omit [''className'', ''title''] props)) ''children''))"
  by (simp add: MenuOptionGroup_def Let_def lacks_simps get_simps)

lemma MenuCommand_role:
  "lacks ''role'' (MenuCommand env props ref) =
     (map_of props ''role'' = None \<and> lacks ''role'' (get props ''children''))"
  by (simp add: MenuCommand_def Let_def lacks_simps get_simps)

lemma MenuIcon_role:
  "(case MenuIcon env props of
      Inl e \<Rightarrow> True
    | Inr icon \<Rightarrow>
        lacks ''role'' icon =
          (map_of props ''role'' = None \<and> lacks ''role'' (get props ''children'')))"
proof (cases "get props ''children''")
  case (Elem t ps)
  then show ?thesis
    by (simp add: MenuIcon_def Let_def Children_only_def lacks_simps get_simps)
qed (simp_all add: MenuIcon_def Let_def Children_only_def)

lemma MenuGroup_role:
  "map_of (el_props (MenuGroup env props ref)) ''role'' = Some (Str ''group'')"
  by (simp add: MenuGroup_def Let_def)

lemma MenuDivider_role:
  "map_of (el_props (MenuDivider env props)) ''role'' =
     Some (case map_of props ''role'' of None \<Rightarrow> Str ''separator'' | Some r \<Rightarrow> r)"
  by (simp add: MenuDivider_def Let_def get_simps map_add_def split: option.splits)

text \<open>
  C2, as amended. Two components write a role themselves: the \<^verbatim>\<open>div\<close> of \<open>MenuGroup\<close>
  always has \<^verbatim>\<open>role="group"\<close>, and the \<^verbatim>\<open>hr\<close> of \<open>MenuDivider\<close> has
  \<^verbatim>\<open>role="separator"\<close> unless the caller's props give a role. Every other component
  writes none: its output has a role attribute exactly when the hook's result, the
  caller's props or the children it is given have one.
\<close>

theorem roles_written_by_the_file:
  "lacks ''role'' (Menu env props) =
     lacks ''role''
       (runIfFn env (get props ''children'')
          [Obj [(''isOpen'', get (useMenu env (omitThemingProps env props)) ''isOpen''),
                (''onClose'', get (useMenu env (omitThemingProps env props)) ''onClose''),
                (''forceUpdate'',
                 get (useMenu env (omitThemingProps env props)) ''forceUpdate'')]]) \<and>
   lacks ''role'' (MenuButton env props ref) =
     (map_of (useMenuButton env (omit [''children'', ''as''] props) ref) ''role'' = None \<and>
      lacks ''role'' (get props ''children'')) \<and>
   lacks ''role'' (MenuList env props ref) =
     (map_of (useMenuPositioner env) ''role'' = None \<and>
      map_of (useMenuList env props ref) ''role'' = None \<and>
      lacks ''role'' (get (useMenuList env props ref) ''children'')) \<and>
   lacks ''role'' (MenuItem env props ref) =
     (map_of (useMenuItem env
        (omit [''icon'', ''iconSpacing'', ''command'', ''children''] props) ref) ''role'' = None \<and>
      lacks ''role'' (get props ''icon'') \<and>
      lacks ''role'' (get props ''children'') \<and>
      lacks ''role'' (get props ''command'')) \<and>
   lacks ''role'' (MenuItemOption env props ref) =
     (map_of (useMenuOption env (omit [''icon'', ''iconSpacing''] props) ref) ''role'' = None \<and>
      lacks ''role'' (get props ''icon'') \<and>
      lacks ''role''
        (get (useMenuOption env (omit [''icon'', ''iconSpacing''] props) ref) ''children'')) \<and>
   lacks ''role'' (MenuOptionGroup env props) =
     (map_of (useMenuOptionGroup env (omit [''className'', ''title''] props)) ''role'' = None \<and>
      lacks ''role''
        (get (useMenuOptionGroup env (omit [''className'', ''title''] props)) ''children'')) \<and>
   lacks ''role'' (MenuCommand env props ref) =
     (map_of props ''role'' = None \<and> lacks ''role'' (get props ''children'')) \<and>
   (case MenuIcon env props of
      Inl e \<Rightarrow> True
    | Inr icon \<Rightarrow>
        lacks ''role'' icon =
          (map_of props ''role'' = None \<and> lacks ''role'' (get props ''children''))) \<and>
   lacks ''role'' (StyledMenuButton env props ref) =
     (map_of props ''role'' = None \<and> lacks ''role'' (get props ''children'')) \<and>
   lacks ''role'' (StyledMenuItem env props ref) =
     (map_of props ''role'' = None \<and> lacks ''role'' (get props ''children'')) \<and>
   lacks ''role'' (CheckIcon props) = (map_of props ''role'' = None) \<and>
   map_of (el_props (MenuGroup env props ref)) ''role'' = Some (Str ''group'') \<and>
   map_of (el_props (MenuDivider env props)) ''role'' =
     Some (case map_of props ''role'' of None \<Rightarrow> Str ''separator'' | Some r \<Rightarrow> r)"
  by (intro conjI Menu_role MenuButton_role MenuList_role MenuItem_role MenuItemOption_role
      MenuOptionGroup_role MenuCommand_role MenuIcon_role StyledMenuButton_role
      StyledMenuItem_role CheckIcon_role MenuGroup_role MenuDivider_role)

text \<open>
  With the hooks of \<open>plain_env\<close>: a button and an item given no role have none, an item
  given one has it; the group and the divider have theirs, and a caller's role
  replaces the divider's.
\<close>

theorem roles_written_by_the_file_witness:
  "lacks ''role'' (MenuButton plain_env [(''children'', Str ''Actions'')] Null) \<and>
   lacks ''role'' (MenuItem plain_env [(''children'', Str ''Save'')] Null) \<and>
   \<not> lacks ''role'' (MenuItem plain_env [(''role'', Str ''menuitem'')] Null) \<and>
   map_of (el_props (MenuGroup plain_env [] Null)) ''role'' = Some (Str ''group'') \<and>
   map_of (el_props (MenuDivider plain_env [])) ''role'' = Some (Str ''separator'') \<and>
   map_of (el_props (MenuDivider plain_env [(''role'', Str ''none'')])) ''role'' =
     Some (Str ''none'')"
proof -
  have hooks: "useMenuButton plain_env = (\<lambda>ps ref. ps)" "useMenuItem plain_env = (\<lambda>ps ref. ps)"
    by (simp_all add: plain_env_def)
  show ?thesis
    using roles_written_by_the_file [of plain_env "[(''children'', Str ''Actions'')]" Null]
      roles_written_by_the_file [of plain_env "[(''children'', Str ''Save'')]" Null]
      roles_written_by_the_file [of plain_env "[(''role'', Str ''menuitem'')]" Null]
      roles_written_by_the_file [of plain_env "[]" Null]
      roles_written_by_the_file [of plain_env "[(''role'', Str ''none'')]" Null]
    by (simp add: hooks omit_def get_Cons get_Nil lacks_atom)
qed

text \<open>
  C2 as it was stated fails: a \<open>MenuDivider\<close> given no props at all renders a role.
\<close>

theorem MenuDivider_role_counterexample:
  "\<not> lacks ''role'' (MenuDivider plain_env [])"
  by (simp add: MenuDivider_def Let_def lacks_Elem omit_def)

subsection \<open>Errors\<close>

lemma others_return:
  "map_of (exports @ internals) name = Some f \<and> name \<noteq> ''MenuIcon'' \<longrightarrow>
   (\<exists>out. f env props ref = Inr out)"
proof (intro impI, elim conjE)
  assume f: "map_of (exports @ internals) name = Some f" and name: "name \<noteq> ''MenuIcon''"
  have "list_all (\<lambda>c. fst c = ''MenuIcon'' \<or> (\<exists>out. snd c env props ref = Inr out))
     (exports @ internals)"
    by (simp add: exports_def internals_def)
  moreover from f have "(name, f) \<in> set (exports @ internals)"
    by (rule map_of_SomeD)
  ultimately have "fst (name, f) = ''MenuIcon'' \<or> (\<exists>out. snd (name, f) env props ref = Inr out)"
    unfolding list_all_iff by (rule bspec)
  with name show "\<exists>out. f env props ref = Inr out"
    by simp
qed

lemma MenuIcon_throws_iff:
  "(MenuIcon env props = Inl ChildrenOnlyError) = (\<not> isValidElement (get props ''children''))"
  by (simp add: MenuIcon_def Let_def Children_only_def)

lemma MenuIcon_returns_iff:
  "(\<exists>icon. MenuIcon env props = Inr icon) = isValidElement (get props ''children'')"
  by (simp add: MenuIcon_def Let_def Children_only_def)

lemma MenuItem_icon_renders:
  "get (el_props (MenuItem env props ref)) ''children'' =
     Arr (Elem (Comp (Local ''MenuIcon'')) wrapper # others) \<and>
   isValidElement (get props ''icon'') \<longrightarrow>
   (\<exists>icon. MenuIcon env wrapper = Inr icon)"
  by (cases "get props ''icon''")
    (auto simp: MenuItem_def Let_def get_simps and_js_def MenuIcon_returns_iff)

lemma MenuItemOption_icon_renders:
  "get (el_props (MenuItemOption env props ref)) ''children'' =
     Arr (Elem (Comp (Local ''MenuIcon'')) wrapper # others) \<and>
   (\<not> truthy (get props ''icon'') \<or> isValidElement (get props ''icon'')) \<longrightarrow>
   (\<exists>icon. MenuIcon env wrapper = Inr icon)"
  by (cases "get props ''icon''")
    (auto simp: MenuItemOption_def Let_def get_simps or_js_def MenuIcon_returns_iff)

text \<open>
  C3, as amended. \<open>MenuIcon\<close> throws the error of \<^verbatim>\<open>React.Children.only\<close> exactly when
  its children are not one React element, and returns its element otherwise. No other
  component of the file throws. The icon wrapper that \<open>MenuItem\<close> creates renders when
  the icon prop is an element, the one of \<open>MenuItemOption\<close> when the icon prop is an
  element or falsy.
\<close>

theorem only_MenuIcon_throws:
  "(\<forall>name f. map_of (exports @ internals) name = Some f \<and> name \<noteq> ''MenuIcon'' \<longrightarrow>
      (\<exists>out. f env props ref = Inr out)) \<and>
   (MenuIcon env props = Inl ChildrenOnlyError) = (\<not> isValidElement (get props ''children'')) \<and>
   (\<exists>icon. MenuIcon env props = Inr icon) = isValidElement (get props ''children'') \<and>
   (\<forall>wrapper others.
      get (el_props (MenuItem env props ref)) ''children'' =
        Arr (Elem (Comp (Local ''MenuIcon'')) wrapper # others) \<and>
      isValidElement (get props ''icon'') \<longrightarrow>
      (\<exists>icon. MenuIcon env wrapper = Inr icon)) \<and>
   (\<forall>wrapper others.
      get (el_props (MenuItemOption env props ref)) ''children'' =
        Arr (Elem (Comp (Local ''MenuIcon'')) wrapper # others) \<and>
      (\<not> truthy (get props ''icon'') \<or> isValidElement (get props ''icon'')) \<longrightarrow>
      (\<exists>icon. MenuIcon env wrapper = Inr icon))"
  by (intro conjI allI others_return MenuIcon_throws_iff MenuIcon_returns_iff
      MenuItem_icon_renders MenuItemOption_icon_renders)

text \<open>
  The theorem at work: \<open>MenuList\<close> returns; \<open>MenuIcon\<close> throws without children and
  returns with an \<^verbatim>\<open>svg\<close> element; the icon wrappers of a \<open>MenuItem\<close> with that icon and
  of a \<open>MenuItemOption\<close> without an icon render.
\<close>

theorem only_MenuIcon_throws_witness:
  "(\<exists>f out. map_of (exports @ internals) ''MenuList'' = Some f \<and>
      f plain_env [(''icon'', Elem (Str ''svg'') [])] Null = Inr out) \<and>
   MenuIcon plain_env [(''icon'', Elem (Str ''svg'') [])] = Inl ChildrenOnlyError \<and>
   (\<exists>icon. MenuIcon plain_env [(''children'', Elem (Str ''svg'') [])] = Inr icon) \<and>
   (\<exists>icon. MenuIcon plain_env
      [(''fontSize'', Str ''0.8em''), (''marginEnd'', Str ''0.75rem''),
       (''children'', Elem (Str ''svg'') [])] = Inr icon) \<and>
   (\<exists>icon. MenuIcon plain_env
      [(''fontSize'', Str ''0.8em''), (''marginEnd'', Str ''0.75rem''), (''opacity'', Num 0),
       (''children'', Elem (Comp (Local ''CheckIcon'')) [])] = Inr icon)"
proof -
  let ?props = "[(''icon'', Elem (Str ''svg'') [])]"
  note t = only_MenuIcon_throws [of plain_env ?props Null]
  have hooks: "useMenuItem plain_env = (\<lambda>ps ref. ps)" "useMenuOption plain_env = (\<lambda>ps ref. ps)"
    by (simp_all add: plain_env_def)
  let ?list = "(\<lambda>env props ref. Inr (MenuList env props ref)) :: component"
  have list: "map_of (exports @ internals) ''MenuList'' = Some ?list"
    by (simp add: exports_def)
  from t list obtain out where "?list plain_env ?props Null = Inr out"
    by blast
  with list have c1: "\<exists>f out. map_of (exports @ internals) ''MenuList'' = Some f \<and>
      f plain_env ?props Null = Inr out"
    by (intro exI [of _ ?list] exI [of _ out] conjI)
  from t have c2: "MenuIcon plain_env ?props = Inl ChildrenOnlyError"
    by (simp add: get_def)
  from only_MenuIcon_throws [of plain_env "[(''children'', Elem (Str ''svg'') [])]" Null]
  have c3: "\<exists>icon. MenuIcon plain_env [(''children'', Elem (Str ''svg'') [])] = Inr icon"
    by (simp add: get_def)
  have item: "get (el_props (MenuItem plain_env ?props Null)) ''children'' =
      Arr (Elem (Comp (Local ''MenuIcon''))
             [(''fontSize'', Str ''0.8em''), (''marginEnd'', Str ''0.75rem''),
              (''children'', Elem (Str ''svg'') [])]
           # [Elem (chakra ''span'')
                [(''pointerEvents'', Str ''none''), (''flex'', Str ''1''),
                 (''children'', Undefined)],
              Undefined])"
    by (simp add: MenuItem_def Let_def hooks omit_def get_def and_js_def or_js_def
        default_to_def)
  have icon: "isValidElement (get ?props ''icon'')"
    by (simp add: get_def)
  from t item icon have c4: "\<exists>icon. MenuIcon plain_env
      [(''fontSize'', Str ''0.8em''), (''marginEnd'', Str ''0.75rem''),
       (''children'', Elem (Str ''svg'') [])] = Inr icon"
    by blast
  have option: "get (el_props (MenuItemOption plain_env [] Null)) ''children'' =
      Arr (Elem (Comp (Local ''MenuIcon''))
             [(''fontSize'', Str ''0.8em''), (''marginEnd'', Str ''0.75rem''),
              (''opacity'', Num 0), (''children'', Elem (Comp (Local ''CheckIcon'')) [])]
           # [Elem (chakra ''span'') [(''flex'', Str ''1''), (''children'', Undefined)]])"
    by (simp add: MenuItemOption_def Let_def hooks omit_def get_def or_js_def default_to_def)
  have no_icon: "\<not> truthy (get [] ''icon'')"
    by (simp add: get_def)
  from only_MenuIcon_throws [of plain_env "[]" Null] option no_icon
  have c5: "\<exists>icon. MenuIcon plain_env
      [(''fontSize'', Str ''0.8em''), (''marginEnd'', Str ''0.75rem''), (''opacity'', Num 0),
       (''children'', Elem (Comp (Local ''CheckIcon'')) [])] = Inr icon"
    by blast
  from c1 c2 c3 c4 c5 show ?thesis
    by (intro conjI)
qed
text \<open>
  C3 as it was stated fails: \<open>MenuIcon\<close> throws when it has no children, and when its
  child is a string.
\<close>

theorem MenuIcon_throws_counterexample:
  "MenuIcon plain_env [] = Inl ChildrenOnlyError \<and>
   MenuIcon plain_env [(''children'', Str ''x'')] = Inl ChildrenOnlyError"
  by (simp add: MenuIcon_def Let_def Children_only_def get_def)

subsection \<open>The children of an item\<close>

text \<open>
  C4. \<open>MenuItem\<close> renders a \<open>StyledMenuItem\<close> with three children; the middle one is the
  caller's children inside a \<^verbatim>\<open>span\<close> with \<^verbatim>\<open>pointerEvents="none"\<close> and \<^verbatim>\<open>flex="1"\<close>
  exactly when an icon or a command is given (is truthy: an element, a non-empty
  string), and the caller's children as they are otherwise.
\<close>

theorem MenuItem_wraps_children:
  "\<exists>item iconPart commandPart.
     MenuItem env props ref = Elem (Comp (Local ''StyledMenuItem'')) item \<and>
     get item ''children'' =
       Arr [iconPart,
            (if truthy (get props ''icon'') \<or> truthy (get props ''command'')
             then Elem (chakra ''span'')
                    [(''pointerEvents'', Str ''none''), (''flex'', Str ''1''),
                     (''children'', get props ''children'')]
             else get props ''children''),
            commandPart]"
  by (simp add: MenuItem_def Let_def get_simps or_js_def)

text \<open>
  An item with a command has its label inside the span; an item with neither an icon nor
  a command has it bare.
\<close>

theorem MenuItem_wraps_children_witness:
  "(\<exists>item iconPart commandPart.
      MenuItem plain_env [(''command'', Str ''Ctrl+S''), (''children'', Str ''Save'')] Null =
        Elem (Comp (Local ''StyledMenuItem'')) item \<and>
      get item ''children'' =
        Arr [iconPart,
             Elem (chakra ''span'')
               [(''pointerEvents'', Str ''none''), (''flex'', Str ''1''),
                (''children'', Str ''Save'')],
             commandPart]) \<and>
   (\<exists>item iconPart commandPart.
      MenuItem plain_env [(''children'', Str ''Save'')] Null =
        Elem (Comp (Local ''StyledMenuItem'')) item \<and>
      get item ''children'' = Arr [iconPart, Str ''Save'', commandPart])"
  using MenuItem_wraps_children
      [of plain_env "[(''command'', Str ''Ctrl+S''), (''children'', Str ''Save'')]" Null]
    MenuItem_wraps_children [of plain_env "[(''children'', Str ''Save'')]" Null]
  by (simp add: get_Cons get_Nil)

subsection \<open>The animation of the list\<close>

text \<open>
  C5. \<open>MenuList\<close> renders the positioner \<^verbatim>\<open>div\<close> around the \<open>Motion\<close> element, whose
  \<^verbatim>\<open>animate\<close> is \<^verbatim>\<open>"enter"\<close> when the context's \<^verbatim>\<open>isOpen\<close> is true and \<^verbatim>\<open>"exit"\<close>
  otherwise, with \<^verbatim>\<open>initial\<close> false and the variants of \<open>motionVariants\<close>.
\<close>

theorem MenuList_animate:
  "\<exists>positioner list.
     MenuList env props ref = Elem (chakra ''div'') positioner \<and>
     get positioner ''children'' = Elem Motion list \<and>
     get list ''animate'' =
       (if truthy (get (useMenuContext env) ''isOpen'') then Str ''enter'' else Str ''exit'') \<and>
     get list ''initial'' = Bool False \<and>
     get list ''variants'' = motionVariants"
  by (simp add: MenuList_def Let_def get_assign)

text \<open>
  The list of a closed menu animates to \<^verbatim>\<open>"exit"\<close>, the list of an open one to \<^verbatim>\<open>"enter"\<close>.
\<close>

theorem MenuList_animate_witness:
  "(\<exists>positioner list.
      MenuList plain_env [] Null = Elem (chakra ''div'') positioner \<and>
      get positioner ''children'' = Elem Motion list \<and>
      get list ''animate'' = Str ''exit'' \<and>
      get list ''initial'' = Bool False) \<and>
   (\<exists>positioner list.
      MenuList (plain_env\<lparr>useMenuContext := [(''isOpen'', Bool True)]\<rparr>) [] Null =
        Elem (chakra ''div'') positioner \<and>
      get positioner ''children'' = Elem Motion list \<and>
      get list ''animate'' = Str ''enter'' \<and>
      get list ''initial'' = Bool False)"
proof -
  have closed: "useMenuContext plain_env =
      [(''isOpen'', Bool False), (''onTransitionEnd'', Fn ''onTransitionEnd'')]"
    by (simp add: plain_env_def)
  from MenuList_animate [of plain_env "[]" Null]
  have a: "\<exists>positioner list.
      MenuList plain_env [] Null = Elem (chakra ''div'') positioner \<and>
      get positioner ''children'' = Elem Motion list \<and>
      get list ''animate'' = Str ''exit'' \<and>
      get list ''initial'' = Bool False"
    by (simp add: closed get_Cons) blast
  from MenuList_animate [of "plain_env\<lparr>useMenuContext := [(''isOpen'', Bool True)]\<rparr>" "[]" Null]
  have b: "\<exists>positioner list.
      MenuList (plain_env\<lparr>useMenuContext := [(''isOpen'', Bool True)]\<rparr>) [] Null =
        Elem (chakra ''div'') positioner \<and>
      get positioner ''children'' = Elem Motion list \<and>
      get list ''animate'' = Str ''enter'' \<and>
      get list ''initial'' = Bool False"
    by (simp add: get_Cons) blast
  from a b show ?thesis
    by (rule conjI)
qed

subsection \<open>Class names\<close>

lemma cx_two: "cx env [Str (a # as), Str (b # bs)] = Str ((a # as) @ '' '' @ (b # bs))"
  by (simp add: cx_def class_string_def)

lemma cx_one: "cx env [Str (a # as), Undefined] = Str (a # as)"
  by (simp add: cx_def class_string_def)

lemma MenuButton_className:
  "get (el_props (MenuButton env props ref)) ''className'' =
     cx env [Str ''chakra-menu__menu-button'', get props ''className'']"
  by (simp add: MenuButton_def Let_def get_simps)

lemma MenuItemOption_className:
  "get (el_props (MenuItemOption env props ref)) ''className'' =
     cx env [Str ''chakra-menu__menuitem-option'', get props ''className'']"
  by (simp add: MenuItemOption_def Let_def get_simps)

lemma MenuDivider_className:
  "get (el_props (MenuDivider env props)) ''className'' =
     cx env [Str ''chakra-menu__divider'', get props ''className'']"
  by (simp add: MenuDivider_def Let_def get_simps)

lemma MenuIcon_className:
  "(case MenuIcon env props of
      Inl e \<Rightarrow> True
    | Inr icon \<Rightarrow>
        get (el_props icon) ''className'' =
          cx env [Str ''chakra-menu__icon-wrapper'', get props ''className''])"
  by (simp add: MenuIcon_def Let_def Children_only_def get_simps)

lemma MenuItem_className:
  "get (el_props (MenuItem env props ref)) ''className'' =
     cx env [Str ''chakra-menu__menuitem'',
             get (useMenuItem env
                    (omit [''icon'', ''iconSpacing'', ''command'', ''children''] props) ref)
               ''className'']"
  by (simp add: MenuItem_def Let_def get_simps)

lemma MenuList_className:
  "get (el_props (get (el_props (MenuList env props ref)) ''children'')) ''className'' =
     cx env [Str ''chakra-menu__menu-list'', get (useMenuList env props ref) ''className'']"
  by (simp add: MenuList_def Let_def get_simps)

lemma MenuOptionGroup_className:
  "get (el_props (MenuOptionGroup env props)) ''className'' =
     (if map_of (useMenuOptionGroup env (omit [''className'', ''title''] props)) ''className''
         = None
      then cx env [Str ''chakra-menu__option-group'', get props ''className'']
      else get (useMenuOptionGroup env (omit [''className'', ''title''] props)) ''className'')"
  by (simp add: MenuOptionGroup_def Let_def get_simps)

text \<open>
  \<open>MenuCommand\<close> writes its class after the spread of the props: its element has the
  fixed class whatever \<^verbatim>\<open>className\<close> it is given.
\<close>

lemma MenuCommand_className:
  "get (el_props (MenuCommand env props ref)) ''className'' = Str ''chakra-menu__command''"
  by (simp add: MenuCommand_def Let_def get_simps)

lemma MenuGroup_className:
  "get (el_props (MenuGroup env props ref)) ''className'' = Str ''chakra-menu__group''"
  by (simp add: MenuGroup_def Let_def get_simps)

lemma MenuGroup_title_className:
  "\<exists>title.
     get (el_props (MenuGroup env props ref)) ''children'' =
       Arr [and_js (get props ''title'') (Elem (chakra ''p'') title), get props ''children''] \<and>
     get title ''className'' = cx env [Str ''chakra-menu__group__title'', get props ''className'']"
proof -
  let ?title =
    "assign (assign (spread
       [(''className'', cx env [Str ''chakra-menu__group__title'', get props ''className''])]
       (omit [''title'', ''children'', ''className''] props))
       ''__css'' (style_val (useStyles env) ''groupTitle''))
       ''children'' (get props ''title'')"
  have "get (el_props (MenuGroup env props ref)) ''children'' =
      Arr [and_js (get props ''title'') (Elem (chakra ''p'') ?title), get props ''children'']"
    by (simp add: MenuGroup_def Let_def get_simps)
  moreover have "get ?title ''className'' =
      cx env [Str ''chakra-menu__group__title'', get props ''className'']"
    by (simp add: get_simps)
  ultimately show ?thesis
    by (intro exI [of _ ?title] conjI)
qed

text \<open>
  C6, as amended. \<open>MenuButton\<close>, \<open>MenuItemOption\<close>, \<open>MenuDivider\<close> and \<open>MenuIcon\<close> give
  their element \<open>cx\<close> of their fixed class and the caller's \<^verbatim>\<open>className\<close>; \<open>MenuItem\<close>
  and \<open>MenuList\<close> join their fixed class with the \<^verbatim>\<open>className\<close> that the hook returns;
  \<open>MenuOptionGroup\<close> passes \<open>cx\<close> of its fixed class and the caller's \<^verbatim>\<open>className\<close> to
  \<open>MenuGroup\<close> unless the hook returns a \<^verbatim>\<open>className\<close>; \<open>MenuGroup\<close> gives its
  \<^verbatim>\<open>div\<close> the fixed class only and joins the caller's \<^verbatim>\<open>className\<close> to the class of
  the title paragraph. \<open>cx\<close> of two non-empty classes is the first, a space, the second;
  with no second class it is the first.
\<close>

theorem className_of_each_component:
  "get (el_props (MenuButton env props ref)) ''className'' =
     cx env [Str ''chakra-menu__menu-button'', get props ''className''] \<and>
   get (el_props (MenuItemOption env props ref)) ''className'' =
     cx env [Str ''chakra-menu__menuitem-option'', get props ''className''] \<and>
   get (el_props (MenuDivider env props)) ''className'' =
     cx env [Str ''chakra-menu__divider'', get props ''className''] \<and>
   (case MenuIcon env props of
      Inl e \<Rightarrow> True
    | Inr icon \<Rightarrow>
        get (el_props icon) ''className'' =
          cx env [Str ''chakra-menu__icon-wrapper'', get props ''className'']) \<and>
   get (el_props (MenuItem env props ref)) ''className'' =
     cx env [Str ''chakra-menu__menuitem'',
             get (useMenuItem env
                    (omit [''icon'', ''iconSpacing'', ''command'', ''children''] props) ref)
               ''className''] \<and>
   get (el_props (get (el_props (MenuList env props ref)) ''children'')) ''className'' =
     cx env [Str ''chakra-menu__menu-list'', get (useMenuList env props ref) ''className''] \<and>
   get (el_props (MenuOptionGroup env props)) ''className'' =
     (if map_of (useMenuOptionGroup env (omit [''className'', ''title''] props)) ''className''
         = None
      then cx env [Str ''chakra-menu__option-group'', get props ''className'']
      else get (useMenuOptionGroup env (omit [''className'', ''title''] props)) ''className'') \<and>
   get (el_props (MenuGroup env props ref)) ''className'' = Str ''chakra-menu__group'' \<and>
   (\<exists>title.
      get (el_props (MenuGroup env props ref)) ''children'' =
        Arr [and_js (get props ''title'') (Elem (chakra ''p'') title), get props ''children''] \<and>
      get title ''className'' =
        cx env [Str ''chakra-menu__group__title'', get props ''className'']) \<and>
   cx env [Str (a # as), Str (b # bs)] = Str ((a # as) @ '' '' @ (b # bs)) \<and>
   cx env [Str (a # as), Undefined] = Str (a # as)"
  by (intro conjI MenuButton_className MenuItemOption_className MenuDivider_className
      MenuIcon_className MenuItem_className MenuList_className MenuOptionGroup_className
      MenuGroup_className MenuGroup_title_className cx_two cx_one)

text \<open>
  With the hooks of \<open>plain_env\<close> and the caller's class \<^verbatim>\<open>mine\<close>.
\<close>

theorem className_of_each_component_witness:
  "get (el_props (MenuButton plain_env [(''className'', Str ''mine'')] Null)) ''className'' =
     Str ''chakra-menu__menu-button mine'' \<and>
   get (el_props (MenuItemOption plain_env [(''className'', Str ''mine'')] Null)) ''className'' =
     Str ''chakra-menu__menuitem-option mine'' \<and>
   get (el_props (MenuItem plain_env [(''className'', Str ''mine'')] Null)) ''className'' =
     Str ''chakra-menu__menuitem mine'' \<and>
   get (el_props (MenuDivider plain_env [])) ''className'' = Str ''chakra-menu__divider'' \<and>
   get (el_props (MenuGroup plain_env [(''className'', Str ''mine'')] Null)) ''className'' =
     Str ''chakra-menu__group''"
proof -
  have hooks: "useMenuItem plain_env = (\<lambda>ps ref. ps)"
    by (simp add: plain_env_def)
  note t = className_of_each_component
  show ?thesis
    using t [of plain_env "[(''className'', Str ''mine'')]" Null
        "CHR ''c''" "''hakra-menu__menu-button''" "CHR ''m''" "''ine''"]
      t [of plain_env "[(''className'', Str ''mine'')]" Null
        "CHR ''c''" "''hakra-menu__menuitem-option''" "CHR ''m''" "''ine''"]
      t [of plain_env "[(''className'', Str ''mine'')]" Null
        "CHR ''c''" "''hakra-menu__menuitem''" "CHR ''m''" "''ine''"]
      t [of plain_env "[]" Null "CHR ''c''" "''hakra-menu__divider''" "CHR ''m''" "''ine''"]
    by (simp add: hooks omit_def get_Cons get_Nil)
qed

text \<open>
  C6 as it was stated fails: a \<open>MenuGroup\<close> without a title renders one element, whose
  class is the fixed one; the caller's class is nowhere.
\<close>

theorem MenuGroup_className_counterexample:
  "elements (MenuGroup plain_env [(''className'', Str ''mine'')] Null) =
     [(chakra ''div'',
       [(''ref'', Null), (''className'', Str ''chakra-menu__group''), (''role'', Str ''group''),
        (''children'', Arr [Undefined, Undefined])])]"
  by (simp add: MenuGroup_def Let_def get_simps and_js_def omit_def)

subsection \<open>What the file exports\<close>

text \<open>
  C7. The file exports a component for each kind of element: \<open>Menu\<close>, \<open>MenuButton\<close>,
  \<open>MenuList\<close>, \<open>MenuItem\<close>, \<open>MenuItemOption\<close>, \<open>MenuOptionGroup\<close>, \<open>MenuDivider\<close>,
  \<open>MenuCommand\<close> and \<open>MenuIcon\<close>.
\<close>

theorem exported_components:
  "map_of exports ''Menu'' = Some (\<lambda>env props ref. Inr (Menu env props)) \<and>
   map_of exports ''MenuButton'' = Some (\<lambda>env props ref. Inr (MenuButton env props ref)) \<and>
   map_of exports ''MenuList'' = Some (\<lambda>env props ref. Inr (MenuList env props ref)) \<and>
   map_of exports ''MenuItem'' = Some (\<lambda>env props ref. Inr (MenuItem env props ref)) \<and>
   map_of exports ''MenuItemOption'' =
     Some (\<lambda>env props ref. Inr (MenuItemOption env props ref)) \<and>
   map_of exports ''MenuOptionGroup'' = Some (\<lambda>env props ref. Inr (MenuOptionGroup env props)) \<and>
   map_of exports ''MenuDivider'' = Some (\<lambda>env props ref. Inr (MenuDivider env props)) \<and>
   map_of exports ''MenuCommand'' = Some (\<lambda>env props ref. Inr (MenuCommand env props ref)) \<and>
   map_of exports ''MenuIcon'' = Some (\<lambda>env props ref. MenuIcon env props)"
  by (simp add: exports_def)

subsection \<open>The type of the item's button\<close>

text \<open>
  C8. \<open>StyledMenuItem\<close> renders a \<^verbatim>\<open>chakra.button\<close> whose \<^verbatim>\<open>type\<close> is \<^verbatim>\<open>"button"\<close>
  when no \<^verbatim>\<open>as\<close> is given, whatever the \<^verbatim>\<open>type\<close> prop; with an \<^verbatim>\<open>as\<close> it is the
  \<^verbatim>\<open>type\<close> prop, and undefined when there is none (or it is null).
\<close>

theorem StyledMenuItem_type:
  "\<exists>button.
     StyledMenuItem env props ref = Elem (chakra ''button'') button \<and>
     get button ''type'' =
       (if truthy (get props ''as'')
        then (if get props ''type'' = Undefined \<or> get props ''type'' = Null
              then Undefined else get props ''type'')
        else Str ''button'')"
  by (simp add: StyledMenuItem_def Let_def get_simps nullish_def)

text \<open>
  A \<^verbatim>\<open>type="submit"\<close> without \<^verbatim>\<open>as\<close> becomes \<^verbatim>\<open>"button"\<close>; with \<^verbatim>\<open>as="a"\<close> it is kept, and
  without a type there is none.
\<close>

theorem StyledMenuItem_type_witness:
  "(\<exists>button.
      StyledMenuItem plain_env [(''type'', Str ''submit'')] Null = Elem (chakra ''button'') button \<and>
      get button ''type'' = Str ''button'') \<and>
   (\<exists>button.
      StyledMenuItem plain_env [(''as'', Str ''a''), (''type'', Str ''submit'')] Null =
        Elem (chakra ''button'') button \<and>
      get button ''type'' = Str ''submit'') \<and>
   (\<exists>button.
      StyledMenuItem plain_env [(''as'', Str ''a'')] Null = Elem (chakra ''button'') button \<and>
      get button ''type'' = Undefined)"
  using StyledMenuItem_type [of plain_env "[(''type'', Str ''submit'')]" Null]
    StyledMenuItem_type [of plain_env "[(''as'', Str ''a''), (''type'', Str ''submit'')]" Null]
    StyledMenuItem_type [of plain_env "[(''as'', Str ''a'')]" Null]
  by (simp add: get_Cons get_Nil)

subsection \<open>The icon of an option\<close>

text \<open>
  C9. \<open>MenuItemOption\<close> renders, before the label, a \<open>MenuIcon\<close> whose opacity is 1 when
  \<^verbatim>\<open>isChecked\<close> is true and 0 otherwise, and whose child is the caller's icon when one
  is given and the \<open>CheckIcon\<close> otherwise: the check mark is in the output of an
  unchecked option too.
\<close>

theorem MenuItemOption_icon:
  "\<exists>option.
     MenuItemOption env props ref = Elem (Comp (Local ''StyledMenuItem'')) option \<and>
     get option ''children'' =
       Arr [Elem (Comp (Local ''MenuIcon''))
              [(''fontSize'', Str ''0.8em''),
               (''marginEnd'',
                if get props ''iconSpacing'' = Undefined then Str ''0.75rem''
                else get props ''iconSpacing''),
               (''opacity'', if truthy (get props ''isChecked'') then Num 1 else Num 0),
               (''children'',
                if truthy (get props ''icon'') then get props ''icon''
                else Elem (Comp (Local ''CheckIcon'')) [])],
            Elem (chakra ''span'')
              [(''flex'', Str ''1''),
               (''children'',
                get (useMenuOption env (omit [''icon'', ''iconSpacing''] props) ref)
                  ''children'')]]"
  by (simp add: MenuItemOption_def Let_def get_simps or_js_def default_to_def)

text \<open>
  An unchecked option without an icon has the \<open>CheckIcon\<close> at opacity 0; a checked one
  with an icon of its own has that icon at opacity 1.
\<close>

theorem MenuItemOption_icon_witness:
  "(\<exists>option label.
      MenuItemOption plain_env [(''children'', Str ''Ascending'')] Null =
        Elem (Comp (Local ''StyledMenuItem'')) option \<and>
      get option ''children'' =
        Arr [Elem (Comp (Local ''MenuIcon''))
               [(''fontSize'', Str ''0.8em''), (''marginEnd'', Str ''0.75rem''),
                (''opacity'', Num 0), (''children'', Elem (Comp (Local ''CheckIcon'')) [])],
             label]) \<and>
   (\<exists>option label.
      MenuItemOption plain_env
          [(''isChecked'', Bool True), (''icon'', Elem (Str ''svg'') [])] Null =
        Elem (Comp (Local ''StyledMenuItem'')) option \<and>
      get option ''children'' =
        Arr [Elem (Comp (Local ''MenuIcon''))
               [(''fontSize'', Str ''0.8em''), (''marginEnd'', Str ''0.75rem''),
                (''opacity'', Num 1), (''children'', Elem (Str ''svg'') [])],
             label])"
  using MenuItemOption_icon [of plain_env "[(''children'', Str ''Ascending'')]" Null]
    MenuItemOption_icon
      [of plain_env "[(''isChecked'', Bool True), (''icon'', Elem (Str ''svg'') [])]" Null]
  by (auto simp: get_Cons get_Nil)

subsection \<open>The menu itself\<close>

text \<open>
  C10. \<open>Menu\<close> renders the \<^verbatim>\<open>MenuProvider\<close> with the context of \<open>useMenu\<close>, around the
  \<^verbatim>\<open>StylesProvider\<close>, around the children: a function child is called with the object
  of \<^verbatim>\<open>isOpen\<close>, \<^verbatim>\<open>onClose\<close> and \<^verbatim>\<open>forceUpdate\<close> of the context, any other child is
  rendered as it is. No element of a host tag is created.
\<close>

theorem Menu_output:
  "Menu env props =
     Elem (Comp (Imported ''MenuProvider''))
       [(''value'', Obj (useMenu env (omitThemingProps env props))),
        (''children'',
         Elem (Comp (Imported ''StylesProvider''))
           [(''value'', useMultiStyleConfig env ''Menu'' props),
            (''children'',
             (case get props ''children'' of
                Fn f \<Rightarrow>
                  call env f
                    [Obj [(''isOpen'', get (useMenu env (omitThemingProps env props)) ''isOpen''),
                          (''onClose'', get (useMenu env (omitThemingProps env props)) ''onClose''),
                          (''forceUpdate'',
                           get (useMenu env (omitThemingProps env props)) ''forceUpdate'')]]
              | child \<Rightarrow> child))])]"
  by (simp add: Menu_def Let_def runIfFn_def split: jsval.splits)

text \<open>
  A function child, \<^verbatim>\<open>label\<close>, is called and shows \<^verbatim>\<open>isOpen\<close> of the context; a
  string child is rendered as it is.
\<close>

theorem Menu_output_witness:
  "Menu plain_env [(''children'', Fn ''label'')] =
     Elem (Comp (Imported ''MenuProvider''))
       [(''value'',
         Obj [(''isOpen'', Bool False), (''onClose'', Fn ''onClose''), (''forceUpdate'', Null)]),
        (''children'',
         Elem (Comp (Imported ''StylesProvider''))
           [(''value'', Obj []), (''children'', Bool False)])] \<and>
   Menu plain_env [(''children'', Str ''Actions'')] =
     Elem (Comp (Imported ''MenuProvider''))
       [(''value'',
         Obj [(''isOpen'', Bool False), (''onClose'', Fn ''onClose''), (''forceUpdate'', Null)]),
        (''children'',
         Elem (Comp (Imported ''StylesProvider''))
           [(''value'', Obj []), (''children'', Str ''Actions'')])]"
  using Menu_output [of plain_env "[(''children'', Fn ''label'')]"]
    Menu_output [of plain_env "[(''children'', Str ''Actions'')]"]
  by (simp add: plain_env_def get_Cons get_Nil)

end
